theory Spec2Isabelle
  imports Complex_Main "HOL-Library.List_Lexorder" "HOL-Library.Multiset"
begin

section \<open>Python values\<close>

text \<open>
  A Python \<open>str\<close> is a sequence of Unicode code points; it is compared, sliced and
  stripped code point by code point. The order on \<open>pystr\<close> is the lexicographic one
  of \<open>HOL-Library.List_Lexorder\<close>, which is Python's order on \<open>str\<close>.
\<close>

type_synonym pystr = "nat list"

definition py :: "string \<Rightarrow> pystr" where
  \<comment> \<open>an ASCII literal of the source, as code points\<close>
  "py s = map of_char s"

definition em_dash :: pystr where
  \<comment> \<open>the literal \<open>'\<emdash>'\<close> (U+2014) the source uses as a placeholder\<close>
  "em_dash = [8212]"

text \<open>
  A Python \<open>float\<close>: a finite value (both zeros are \<open>Finite 0\<close>: they are equal and
  both false), an infinity with its sign (\<open>True\<close> for the negative one), or NaN.
\<close>

datatype pyfloat = Finite rat | Infinity bool | NaN

text \<open>What \<open>json.loads\<close> returns: \<open>None\<close>, \<open>bool\<close>, \<open>int\<close>, \<open>float\<close>, \<open>str\<close>, \<open>list\<close>, \<open>dict\<close>
  (keys in the order of the document).\<close>

datatype json =
    JNull
  | JBool bool
  | JInt int
  | JFloat pyfloat
  | JStr pystr
  | JList "json list"
  | JDict "(pystr \<times> json) list"

datatype py_error =
    AttributeError | TypeError | OverflowError | UnicodeDecodeError | JSONDecodeError

definition pybind :: "py_error + 'a \<Rightarrow> ('a \<Rightarrow> py_error + 'b) \<Rightarrow> py_error + 'b" where
  \<comment> \<open>sequencing: an exception raised by the first step leaves the second undone\<close>
  "pybind m f = (case m of Inl e \<Rightarrow> Inl e | Inr v \<Rightarrow> f v)"

fun truthy :: "json \<Rightarrow> bool" where
  "truthy JNull = False"
| "truthy (JBool b) = b"
| "truthy (JInt i) = (i \<noteq> 0)"
| "truthy (JFloat f) = (f \<noteq> Finite 0)"
| "truthy (JStr s) = (s \<noteq> [])"
| "truthy (JList xs) = (xs \<noteq> [])"
| "truthy (JDict kvs) = (kvs \<noteq> [])"

definition py_or :: "json \<Rightarrow> json \<Rightarrow> json" where
  \<comment> \<open>\<open>a or b\<close>\<close>
  "py_or a b = (if truthy a then a else b)"

fun is_dict :: "json \<Rightarrow> bool" where
  "is_dict (JDict _) = True"
| "is_dict _ = False"

fun is_list :: "json \<Rightarrow> bool" where
  "is_list (JList _) = True"
| "is_list _ = False"

definition lookup :: "(pystr \<times> json) list \<Rightarrow> pystr \<Rightarrow> json \<Rightarrow> json" where
  \<comment> \<open>\<open>d.get(k, default)\<close> on the items of a dict\<close>
  "lookup kvs k d = (case map_of kvs k of None \<Rightarrow> d | Some v \<Rightarrow> v)"

fun get :: "json \<Rightarrow> pystr \<Rightarrow> json \<Rightarrow> py_error + json" where
  \<comment> \<open>\<open>x.get(k, d)\<close>: only a \<open>dict\<close> has the method\<close>
  "get (JDict kvs) k d = Inr (lookup kvs k d)"
| "get _ k d = Inl AttributeError"

subsection \<open>Strings\<close>

definition is_space :: "nat \<Rightarrow> bool" where
  \<comment> \<open>the code points \<open>str.isspace\<close> accepts, which \<open>str.strip()\<close> removes\<close>
  "is_space c \<longleftrightarrow>
     (9 \<le> c \<and> c \<le> 13) \<or> (28 \<le> c \<and> c \<le> 32) \<or> c = 133 \<or> c = 160 \<or> c = 5760 \<or>
     (8192 \<le> c \<and> c \<le> 8202) \<or> c = 8232 \<or> c = 8233 \<or> c = 8239 \<or> c = 8287 \<or> c = 12288"

definition strip :: "pystr \<Rightarrow> pystr" where
  "strip s = rev (dropWhile is_space (rev (dropWhile is_space s)))"

fun join :: "pystr \<Rightarrow> pystr list \<Rightarrow> pystr" where
  \<comment> \<open>\<open>sep.join(parts)\<close>\<close>
  "join sep [] = []"
| "join sep [p] = p"
| "join sep (p # q # ps) = p @ sep @ join sep (q # ps)"

fun str_items :: "json list \<Rightarrow> py_error + pystr list" where
  \<comment> \<open>\<open>str.join\<close> raises \<open>TypeError\<close> on an item that is not a \<open>str\<close>\<close>
  "str_items [] = Inr []"
| "str_items (JStr s # vs) = pybind (str_items vs) (\<lambda>ss. Inr (s # ss))"
| "str_items (_ # vs) = Inl TypeError"

subsection \<open>Comparison\<close>

fun num_of :: "json \<Rightarrow> pyfloat option" where
  \<comment> \<open>the numeric value of a \<open>bool\<close>, \<open>int\<close> or \<open>float\<close>; Python compares these by value\<close>
  "num_of (JBool b) = Some (Finite (of_bool b))"
| "num_of (JInt i) = Some (Finite (of_int i))"
| "num_of (JFloat f) = Some f"
| "num_of _ = None"

fun float_eq :: "pyfloat \<Rightarrow> pyfloat \<Rightarrow> bool" where
  "float_eq (Finite a) (Finite b) = (a = b)"
| "float_eq (Infinity s) (Infinity t) = (s = t)"
| "float_eq _ _ = False"

fun float_lt :: "pyfloat \<Rightarrow> pyfloat \<Rightarrow> bool" where
  "float_lt (Finite a) (Finite b) = (a < b)"
| "float_lt (Finite a) (Infinity neg) = (\<not> neg)"
| "float_lt (Infinity neg) (Finite b) = neg"
| "float_lt (Infinity s) (Infinity t) = (s \<and> \<not> t)"
| "float_lt _ _ = False"

text \<open>
  \<open>in\<close>, and \<open>==\<close> on the items of lists and dicts, take two values for equal when
  they are the same object or compare equal. Every NaN that \<open>json.loads\<close> returns is
  one and the same object, so there NaN counts as equal to NaN, while \<open>==\<close> itself says
  that NaN equals nothing.
\<close>

fun same_or_equal :: "json \<Rightarrow> json \<Rightarrow> bool" where
  \<comment> \<open>\<open>a is b or a == b\<close>; two dicts are equal when they have the same keys with equal
      values\<close>
  "same_or_equal (JFloat NaN) (JFloat NaN) = True"
| "same_or_equal JNull JNull = True"
| "same_or_equal (JStr s) (JStr t) = (s = t)"
| "same_or_equal (JList xs) (JList ys) = list_all2 same_or_equal xs ys"
| "same_or_equal (JDict d) (JDict e) =
     (length d = length e \<and>
      (\<forall>kv \<in> set d. \<exists>kw \<in> set e. fst kw = fst kv \<and> same_or_equal (snd kv) (snd kw)))"
| "same_or_equal a b = (case num_of a of None \<Rightarrow> False
               | Some x \<Rightarrow> (case num_of b of None \<Rightarrow> False | Some y \<Rightarrow> float_eq x y))"

definition py_eq :: "json \<Rightarrow> json \<Rightarrow> bool" where
  \<comment> \<open>\<open>a == b\<close>\<close>
  "py_eq a b = (same_or_equal a b \<and> \<not> (a = JFloat NaN \<and> b = JFloat NaN))"

fun py_lt :: "json \<Rightarrow> json \<Rightarrow> py_error + bool" where
  \<comment> \<open>\<open>a < b\<close>: strings and lists lexicographically, numbers by value, \<open>TypeError\<close> otherwise\<close>
  "py_lt (JStr s) (JStr t) = Inr (s < t)"
| "py_lt (JList []) (JList ys) = Inr (ys \<noteq> [])"
| "py_lt (JList (x # xs)) (JList []) = Inr False"
| "py_lt (JList (x # xs)) (JList (y # ys)) =
     (if same_or_equal x y then py_lt (JList xs) (JList ys) else py_lt x y)"
| "py_lt a b = (case num_of a of None \<Rightarrow> Inl TypeError
               | Some x \<Rightarrow> (case num_of b of None \<Rightarrow> Inl TypeError | Some y \<Rightarrow> Inr (float_lt x y)))"

definition py_in :: "json \<Rightarrow> json list \<Rightarrow> bool" where
  \<comment> \<open>\<open>x in ys\<close> for a list \<open>ys\<close>\<close>
  "py_in x ys = list_ex (same_or_equal x) ys"

subsection \<open>Sorting\<close>

text \<open>
  \<open>sorted(xs, key=k)\<close> computes every key first, then sorts stably with \<open><\<close> on the
  keys. An exception of the key function or of a comparison ends the call. The sort is
  written as a stable insertion, one element after the other; on keys that \<open><\<close> orders
  totally every stable sort returns the same list.
\<close>

fun keyed :: "(json \<Rightarrow> py_error + json) \<Rightarrow> json list \<Rightarrow> py_error + (json \<times> json) list" where
  "keyed k [] = Inr []"
| "keyed k (x # xs) =
     pybind (k x) (\<lambda>kx. pybind (keyed k xs) (\<lambda>r. Inr ((kx, x) # r)))"

fun insert_py :: "json \<times> json \<Rightarrow> (json \<times> json) list \<Rightarrow> py_error + (json \<times> json) list" where
  "insert_py x [] = Inr [x]"
| "insert_py x (y # ys) =
     pybind (py_lt (fst x) (fst y)) (\<lambda>lt.
       if lt then Inr (x # y # ys) else pybind (insert_py x ys) (\<lambda>r. Inr (y # r)))"

fun sort_py :: "(json \<times> json) list \<Rightarrow> (json \<times> json) list \<Rightarrow> py_error + (json \<times> json) list" where
  "sort_py acc [] = Inr acc"
| "sort_py acc (x # xs) = pybind (insert_py x acc) (\<lambda>acc'. sort_py acc' xs)"

definition sorted_py :: "(json \<Rightarrow> py_error + json) \<Rightarrow> json list \<Rightarrow> py_error + json list" where
  "sorted_py k xs = pybind (keyed k xs) (\<lambda>kxs. pybind (sort_py [] kxs) (\<lambda>r. Inr (map snd r)))"

fun slice_to :: "nat \<Rightarrow> json \<Rightarrow> py_error + json" where
  \<comment> \<open>\<open>x[:n]\<close>: a \<open>str\<close> or a \<open>list\<close> has slices, other values raise\<close>
  "slice_to n (JStr s) = Inr (JStr (take n s))"
| "slice_to n (JList xs) = Inr (JList (take n xs))"
| "slice_to n _ = Inl TypeError"

fun iter :: "json \<Rightarrow> py_error + json list" where
  \<comment> \<open>what \<open>for x in v\<close> runs over: the items of a list, the keys of a dict, the
      characters of a string; other values are not iterable\<close>
  "iter (JList xs) = Inr xs"
| "iter (JDict kvs) = Inr (map (\<lambda>kv. JStr (fst kv)) kvs)"
| "iter (JStr s) = Inr (map (\<lambda>c. JStr [c]) s)"
| "iter _ = Inl TypeError"

section \<open>View-model adapters\<close>

definition human_name_from_climber :: "json \<Rightarrow> py_error + json" where
  "human_name_from_climber c =
     pybind (get c (py ''first_name'') JNull) (\<lambda>f.
     pybind (get c (py ''middle_name'') JNull) (\<lambda>m.
     pybind (get c (py ''last_name'') JNull) (\<lambda>l.
     let parts = [py_or f (JStr []), py_or m (JStr []), py_or l (JStr [])] in
     pybind (str_items (filter truthy parts)) (\<lambda>ss.
     let name = JStr (strip (join (py '' '') ss)) in
     if truthy name then Inr name
     else pybind (get c (py ''email'') JNull) (\<lambda>em.
       Inr (py_or em (JStr (py ''Unknown''))))))))"

section \<open>Replies, texts and effects\<close>

text \<open>
  The text of an f-string is kept as its pieces, literal text and formatted values:
  the printed form of a value is that of Python's \<open>str()\<close>.
\<close>

datatype piece = Lit pystr | Val json

type_synonym ftext = "piece list"

text \<open>
  A response body is, for \<open>bytes.decode('utf-8')\<close> and \<open>json.loads\<close>, one of three
  things: bytes that are not UTF-8, text that is not a JSON document, or the text of a
  JSON document, given here by the value \<open>json.loads\<close> returns for it.
\<close>

datatype body = Undecodable | Unparsable | Document json

record reply =
  error :: nat
  errorString :: pystr
  readAll :: body

definition NoError :: nat where
  "NoError = 0"

fun decode_utf8 :: "body \<Rightarrow> py_error + body" where
  "decode_utf8 Undecodable = Inl UnicodeDecodeError"
| "decode_utf8 b = Inr b"

fun json_loads :: "body \<Rightarrow> py_error + json" where
  "json_loads (Document v) = Inr v"
| "json_loads _ = Inl JSONDecodeError"

definition parse_reply_json :: "reply \<Rightarrow> json" where
  \<comment> \<open>\<open>try: ... except Exception: return None\<close>\<close>
  "parse_reply_json r =
     (case pybind (decode_utf8 (readAll r)) json_loads of Inl e \<Rightarrow> JNull | Inr v \<Rightarrow> v)"

datatype callback =
    OnMountainDetail | OnGroups | OnRefreshFetched | OnComboLoaded
  | OnCheckGroupsBeforeEdit | OnUpdated | OnGroupCreated

datatype widget =
    LineEdit json
  | SpinBox json
  | DateEdit
  | ComboBox "(ftext \<times> json) list"
  | ListWidget "json list"

text \<open>
  What a handler does outside its own page: message boxes (title, text), requests
  through \<open>APIClient\<close> (endpoint, payload, completion callback) and modal dialogs run
  with \<open>exec()\<close> (title, rows, each with what its widget shows).
\<close>

datatype effect =
    Warning pystr ftext
  | Information pystr ftext
  | Get ftext callback
  | Post ftext json callback
  | Put ftext json callback
  | Exec pystr "(pystr \<times> widget) list"

record 'p outcome =
  page :: 'p
  emitted :: "effect list"
  raised :: "py_error option"

definition finish :: "'p \<Rightarrow> effect list \<Rightarrow> 'p outcome" where
  \<comment> \<open>the handler returns\<close>
  "finish p es = \<lparr>page = p, emitted = es, raised = None\<rparr>"

definition abort :: "'p \<Rightarrow> effect list \<Rightarrow> py_error \<Rightarrow> 'p outcome" where
  \<comment> \<open>the handler is left by an exception\<close>
  "abort p es e = \<lparr>page = p, emitted = es, raised = Some e\<rparr>"

subsection \<open>Arguments of the toolkit\<close>

text \<open>
  The toolkit checks what it is given. A text (of \<open>QLabel\<close>, \<open>QLineEdit\<close>, \<open>addItem\<close>,
  \<open>setText\<close>, \<open>setPlainText\<close>) is a \<open>str\<close>, or \<open>None\<close> for the empty text; an \<open>int\<close>
  (of \<open>QSpinBox.setValue\<close>) is an integer of 32 bits, a \<open>bool\<close>, or a \<open>float\<close>, which is
  cut to its integer part; the data kept with an item (\<open>setData\<close>, \<open>addItem\<close>) holds
  integers of 64 bits. Other values raise.
\<close>

fun qt_text :: "json \<Rightarrow> py_error + pystr" where
  "qt_text (JStr s) = Inr s"
| "qt_text JNull = Inr []"
| "qt_text _ = Inl TypeError"

definition fits_int :: "int \<Rightarrow> py_error + int" where
  "fits_int i = (if - (2 ^ 31) \<le> i \<and> i < 2 ^ 31 then Inr i else Inl OverflowError)"

fun qt_int :: "json \<Rightarrow> py_error + int" where
  "qt_int (JInt i) = fits_int i"
| "qt_int (JBool b) = Inr (if b then 1 else 0)"
| "qt_int (JFloat (Finite q)) = fits_int (if 0 \<le> q then \<lfloor>q\<rfloor> else \<lceil>q\<rceil>)"
| "qt_int (JFloat _) = Inl OverflowError"
| "qt_int _ = Inl TypeError"

fun fits_variant :: "json \<Rightarrow> bool" where
  "fits_variant (JInt i) = (- (2 ^ 63) \<le> i \<and> i < 2 ^ 64)"
| "fits_variant (JList xs) = list_all fits_variant xs"
| "fits_variant (JDict kvs) = list_all (\<lambda>kv. fits_variant (snd kv)) kvs"
| "fits_variant _ = True"

definition qt_variant :: "json \<Rightarrow> py_error + json" where
  "qt_variant v = (if fits_variant v then Inr v else Inl OverflowError)"

definition spin_value :: "int \<Rightarrow> int" where
  \<comment> \<open>a spin box of range 0 to 100000 keeps a value inside its range\<close>
  "spin_value i = max 0 (min 100000 i)"

fun add_each :: "(json \<Rightarrow> py_error + 'a) \<Rightarrow> json list \<Rightarrow> 'a list \<Rightarrow> 'a list \<times> py_error option" where
  \<comment> \<open>\<open>for x in xs: w.addItem(f(x))\<close>: items added before an exception stay\<close>
  "add_each f [] acc = (acc, None)"
| "add_each f (x # xs) acc =
     (case f x of Inl e \<Rightarrow> (acc, Some e) | Inr y \<Rightarrow> add_each f xs (acc @ [y]))"

section \<open>Mountains page\<close>

record card =
  title :: json
  meta :: ftext
  description :: json

record item =
  item_data :: json
  item_widget :: card

record mountains_page =
  current_mountain :: json
  name_lbl :: ftext
  height_lbl :: ftext
  country_lbl :: ftext
  region_lbl :: ftext
  desc :: json
  groups_list :: "item list"

definition MountainsPage_init :: mountains_page where
  \<comment> \<open>the page as \<open>__init__\<close> and \<open>setup_ui\<close> build it: no mountain, placeholder labels,
      no description, no groups\<close>
  "MountainsPage_init =
     \<lparr>current_mountain = JNull,
      name_lbl = [Lit (py ''Name: '' @ em_dash)],
      height_lbl = [Lit (py ''Height: '' @ em_dash)],
      country_lbl = [Lit (py ''Country: '' @ em_dash)],
      region_lbl = [Lit (py ''Region: '' @ em_dash)],
      desc = JStr [],
      groups_list = []\<rparr>"

definition GroupCard :: "json \<Rightarrow> py_error + card" where
  "GroupCard g =
     pybind (get g (py ''group_name'') JNull) (\<lambda>gn.
     pybind (get g (py ''name'') JNull) (\<lambda>n.
     pybind (qt_text (py_or gn (py_or n (JStr (py ''Group''))))) (\<lambda>shown_title.
     pybind (get g (py ''leader_name'') (JStr em_dash)) (\<lambda>leader.
     pybind (get g (py ''ascent_start_date'') (JStr em_dash)) (\<lambda>start.
     pybind (get g (py ''description'') JNull) (\<lambda>d.
     pybind (slice_to 180 (py_or d (JStr []))) (\<lambda>short.
     pybind (qt_text short) (\<lambda>shown_desc.
     Inr \<lparr>title = JStr shown_title,
          meta = [Lit (py ''Leader: ''), Val leader,
                  Lit (py ''  '' @ [8226] @ py ''  Start: ''), Val start],
          description = JStr shown_desc\<rparr>))))))))"

definition load_mountain :: "json \<Rightarrow> effect list" where
  "load_mountain mountain_id =
     (if \<not> truthy mountain_id then []
      else [Get [Lit (py ''/mountains/''), Val mountain_id] OnMountainDetail,
            Get [Lit (py ''/mountains/''), Val mountain_id, Lit (py ''/groups'')] OnGroups])"

definition on_mountain_detail :: "mountains_page \<Rightarrow> reply \<Rightarrow> mountains_page outcome" where
  "on_mountain_detail p r =
     (if error r \<noteq> NoError
      then finish p [Warning (py ''Error'')
             [Lit (py ''Failed to load mountain: ''), Val (JStr (errorString r))]]
      else case parse_reply_json r of
        JDict kvs \<Rightarrow>
          (let p1 = p\<lparr>current_mountain := JDict kvs,
                     name_lbl := [Lit (py ''Name: ''), Val (lookup kvs (py ''name'') (JStr em_dash))],
                     height_lbl := [Lit (py ''Height: ''), Val (lookup kvs (py ''height'') (JStr em_dash))],
                     country_lbl := [Lit (py ''Country: ''), Val (lookup kvs (py ''country'') (JStr em_dash))],
                     region_lbl := [Lit (py ''Region: ''), Val (lookup kvs (py ''region'') (JStr em_dash))]\<rparr>
           in case qt_text (lookup kvs (py ''description'') (JStr [])) of
                Inl e \<Rightarrow> abort p1 [] e
              | Inr d \<Rightarrow> finish (p1\<lparr>desc := JStr d\<rparr>) [])
      | _ \<Rightarrow> finish p [])"

definition ascent_start_key :: "json \<Rightarrow> py_error + json" where
  \<comment> \<open>\<open>lambda x: x.get('ascent_start_date') or ''\<close>\<close>
  "ascent_start_key x =
     pybind (get x (py ''ascent_start_date'') JNull) (\<lambda>d. Inr (py_or d (JStr [])))"

definition render_group :: "json \<Rightarrow> py_error + item" where
  \<comment> \<open>the body of the loop of \<open>_on_groups\<close>\<close>
  "render_group g =
     pybind (get g (py ''group_name'') JNull) (\<lambda>gn.
     pybind (get g (py ''name'') JNull) (\<lambda>n.
     pybind (get g (py ''leader_name'') JNull) (\<lambda>l.
     pybind (get g (py ''ascent_start_date'') JNull) (\<lambda>s.
     pybind (get g (py ''description'') (JStr [])) (\<lambda>d.
     pybind (GroupCard (JDict
        [(py ''group_name'', py_or gn (py_or n (JStr (py ''Group'')))),
         (py ''leader_name'', py_or l (JStr em_dash)),
         (py ''ascent_start_date'', py_or s (JStr em_dash)),
         (py ''description'', d)])) (\<lambda>w.
     pybind (qt_variant g) (\<lambda>kept.
     Inr \<lparr>item_data = kept, item_widget = w\<rparr>)))))))"

definition on_groups :: "mountains_page \<Rightarrow> reply \<Rightarrow> mountains_page outcome" where
  "on_groups p r =
     (if error r \<noteq> NoError
      then finish p [Warning (py ''Error'')
             [Lit (py ''Failed to load groups: ''), Val (JStr (errorString r))]]
      else case parse_reply_json r of
        JList xs \<Rightarrow>
          (let data_sorted = (case sorted_py ascent_start_key xs of Inl e \<Rightarrow> xs | Inr ys \<Rightarrow> ys);
               shown = add_each render_group data_sorted []
           in \<lparr>page = p\<lparr>groups_list := fst shown\<rparr>, emitted = [], raised = snd shown\<rparr>)
      | _ \<Rightarrow> finish (p\<lparr>groups_list := []\<rparr>) [])"

fun collect :: "(json \<Rightarrow> py_error + 'a) \<Rightarrow> json list \<Rightarrow> py_error + 'a list" where
  \<comment> \<open>the list comprehension \<open>[f(x) for x in xs]\<close>\<close>
  "collect f [] = Inr []"
| "collect f (x # xs) = pybind (f x) (\<lambda>y. pybind (collect f xs) (\<lambda>ys. Inr (y # ys)))"

definition on_refresh :: "bool \<Rightarrow> effect list" where
  \<comment> \<open>\<open>hosted\<close>: the page's window has a \<open>load_mountain_combo\<close>, which then does the
      reload; otherwise the page fetches the list itself\<close>
  "on_refresh hosted =
     (if hosted then [Get [Lit (py ''/mountains/'')] OnComboLoaded]
      else [Get [Lit (py ''/mountains/'')] OnRefreshFetched])"

definition on_refresh_fetched :: "mountains_page \<Rightarrow> reply \<Rightarrow> mountains_page outcome" where
  "on_refresh_fetched p r =
     (if error r \<noteq> NoError
      then finish p [Warning (py ''Error'')
             [Lit (py ''Failed to refresh mountains: ''), Val (JStr (errorString r))]]
      else case (case parse_reply_json r of JList xs \<Rightarrow> xs | _ \<Rightarrow> []) of
        [] \<Rightarrow>
          finish (p\<lparr>current_mountain := JNull,
                   name_lbl := [Lit (py ''Name: '' @ em_dash)],
                   height_lbl := [Lit (py ''Height: '' @ em_dash)],
                   country_lbl := [Lit (py ''Country: '' @ em_dash)],
                   region_lbl := [Lit (py ''Region: '' @ em_dash)],
                   desc := JStr [],
                   groups_list := []\<rparr>) []
      | m # ms \<Rightarrow>
          (let current_id =
                 (case current_mountain p of JDict kvs \<Rightarrow> lookup kvs (py ''id'') JNull | _ \<Rightarrow> JNull)
           in case collect (\<lambda>x. get x (py ''id'') JNull) (m # ms) of
                Inl e \<Rightarrow> abort p [] e
              | Inr ids \<Rightarrow>
                  if truthy current_id \<and> py_in current_id ids
                  then finish p (load_mountain current_id)
                  else (case get m (py ''id'') JNull of
                          Inl e \<Rightarrow> abort p [] e
                        | Inr first_mid \<Rightarrow>
                            finish p (if truthy first_mid then load_mountain first_mid else []))))"

definition on_edit :: "mountains_page \<Rightarrow> mountains_page outcome" where
  "on_edit p =
     (if \<not> truthy (current_mountain p)
      then finish p [Information (py ''Info'') [Lit (py ''No mountain selected'')]]
      else case get (current_mountain p) (py ''id'') JNull of
             Inl e \<Rightarrow> abort p [] e
           | Inr mid \<Rightarrow>
               finish p [Get [Lit (py ''/mountains/''), Val mid, Lit (py ''/groups'')]
                           OnCheckGroupsBeforeEdit])"

record mountain_form =
  form_name :: pystr
  form_height :: int
  form_country :: pystr
  form_region :: pystr
  form_description :: pystr

definition mountain_payload :: "mountain_form \<Rightarrow> json" where
  "mountain_payload f = JDict
     [(py ''name'', JStr (form_name f)), (py ''height'', JInt (form_height f)),
      (py ''country'', JStr (form_country f)), (py ''region'', JStr (form_region f)),
      (py ''description'', JStr (form_description f))]"

definition edit_rows :: "json \<Rightarrow> py_error + (pystr \<times> widget) list" where
  \<comment> \<open>the rows of the edit form, filled from the current mountain \<open>m\<close>\<close>
  "edit_rows m =
     pybind (get m (py ''name'') (JStr [])) (\<lambda>n.
     pybind (qt_text n) (\<lambda>name.
     pybind (get m (py ''height'') JNull) (\<lambda>h.
     pybind (qt_int (py_or h (JInt 0))) (\<lambda>height.
     pybind (get m (py ''country'') (JStr [])) (\<lambda>c.
     pybind (qt_text c) (\<lambda>country.
     pybind (get m (py ''region'') (JStr [])) (\<lambda>rg.
     pybind (qt_text rg) (\<lambda>region.
     pybind (get m (py ''description'') (JStr [])) (\<lambda>d.
     pybind (qt_text d) (\<lambda>description.
     Inr [(py ''Name'', LineEdit (JStr name)),
          (py ''Height'', SpinBox (JInt (spin_value height))),
          (py ''Country'', LineEdit (JStr country)), (py ''Region'', LineEdit (JStr region)),
          (py ''Description'', LineEdit (JStr description))]))))))))))"

definition on_check_groups_before_edit ::
    "mountains_page \<Rightarrow> reply \<Rightarrow> mountain_form option \<Rightarrow> mountains_page outcome" where
  \<comment> \<open>\<open>answer\<close>: what the user does with the dialog once it runs: \<open>None\<close> to cancel, or
      the accepted fields\<close>
  "on_check_groups_before_edit p r answer =
     (if error r \<noteq> NoError
      then finish p [Warning (py ''Error'') [Lit (py ''Failed: ''), Val (JStr (errorString r))]]
      else case parse_reply_json r of
        JList (x # xs) \<Rightarrow>
          finish p [Information (py ''Info'')
            [Lit (py ''Cannot edit mountain: ascents exist for this mountain'')]]
      | _ \<Rightarrow>
          (case edit_rows (current_mountain p) of
             Inl e \<Rightarrow> abort p [] e
           | Inr rows \<Rightarrow>
               (case answer of
                  None \<Rightarrow> finish p [Exec (py ''Edit mountain'') rows]
                | Some f \<Rightarrow>
                    (case get (current_mountain p) (py ''id'') JNull of
                       Inl e \<Rightarrow> abort p [Exec (py ''Edit mountain'') rows] e
                     | Inr mid \<Rightarrow>
                         finish p [Exec (py ''Edit mountain'') rows,
                           Put [Lit (py ''/mountains/''), Val mid] (mountain_payload f)
                             OnUpdated]))))"

section \<open>Climbers, Groups, Ascents and Stats pages\<close>

text \<open>Each of these pages holds one widget: a list of lines, or a text.\<close>

definition climber_line :: "json \<Rightarrow> py_error + ftext" where
  "climber_line c =
     pybind (human_name_from_climber c) (\<lambda>n.
     pybind (get c (py ''email'') (JStr [])) (\<lambda>e.
     Inr [Val n, Lit (py '' '' @ em_dash @ py '' ''), Val e]))"

definition ClimbersPage_on_fetched :: "ftext list \<Rightarrow> reply \<Rightarrow> (ftext list) outcome" where
  "ClimbersPage_on_fetched l r =
     (if error r \<noteq> NoError then finish l [Warning (py ''Error'') [Lit (errorString r)]]
      else case parse_reply_json r of
        JList xs \<Rightarrow>
          (let shown = add_each climber_line xs []
           in \<lparr>page = fst shown, emitted = [], raised = snd shown\<rparr>)
      | _ \<Rightarrow> finish [] [])"

definition group_line :: "json \<Rightarrow> py_error + ftext" where
  "group_line g =
     pybind (get g (py ''name'') JNull) (\<lambda>n.
     pybind (get g (py ''leader_id'') JNull) (\<lambda>l.
     Inr [Val n, Lit (py '' '' @ em_dash @ py '' leader:''), Val l]))"

definition GroupsPage_on_fetched :: "ftext list \<Rightarrow> reply \<Rightarrow> (ftext list) outcome" where
  "GroupsPage_on_fetched l r =
     (if error r \<noteq> NoError then finish l [Warning (py ''Error'') [Lit (errorString r)]]
      else case parse_reply_json r of
        JList xs \<Rightarrow>
          (let shown = add_each group_line xs []
           in \<lparr>page = fst shown, emitted = [], raised = snd shown\<rparr>)
      | _ \<Rightarrow> finish [] [])"

definition name_or_nested :: "json \<Rightarrow> pystr \<Rightarrow> pystr \<Rightarrow> py_error + json" where
  \<comment> \<open>\<open>a.get(k1) or (a.get(k2) or {}).get('name') or '\<emdash>'\<close>\<close>
  "name_or_nested a k1 k2 =
     pybind (get a k1 JNull) (\<lambda>x.
       if truthy x then Inr x
       else pybind (get a k2 JNull) (\<lambda>m.
            pybind (get (py_or m (JDict [])) (py ''name'') JNull) (\<lambda>y.
            Inr (py_or y (JStr em_dash)))))"

definition ascent_line :: "json \<Rightarrow> py_error + ftext" where
  "ascent_line a =
     pybind (name_or_nested a (py ''mountain_name'') (py ''mountain'')) (\<lambda>mountain.
     pybind (name_or_nested a (py ''group_name'') (py ''group'')) (\<lambda>grp.
     pybind (get a (py ''start_date'') JNull) (\<lambda>s.
     pybind (get a (py ''end_date'') JNull) (\<lambda>e.
     pybind (get a (py ''status'') JNull) (\<lambda>st.
     Inr [Val mountain, Lit (py '' '' @ em_dash @ py '' ''), Val grp,
          Lit (py '' '' @ em_dash @ py '' ''), Val s, Lit (py '' -> ''), Val e,
          Lit (py '' '' @ em_dash @ py '' ''), Val st])))))"

definition AscentsPage_on_fetched :: "ftext list \<Rightarrow> reply \<Rightarrow> (ftext list) outcome" where
  "AscentsPage_on_fetched l r =
     (if error r \<noteq> NoError then finish l [Warning (py ''Error'') [Lit (errorString r)]]
      else case parse_reply_json r of
        JList xs \<Rightarrow>
          (let shown = add_each ascent_line xs []
           in \<lparr>page = fst shown, emitted = [], raised = snd shown\<rparr>)
      | _ \<Rightarrow> finish [] [])"

definition stat_line :: "json \<Rightarrow> py_error + ftext" where
  "stat_line m =
     pybind (get m (py ''name'') JNull) (\<lambda>n.
     pybind (get m (py ''height'') JNull) (\<lambda>h.
     pybind (get m (py ''ascents_count'') JNull) (\<lambda>a.
     pybind (get m (py ''unique_groups_count'') JNull) (\<lambda>u.
     Inr [Val n, Lit (py '' (''), Val h, Lit (py '') '' @ em_dash @ py '' ascents: ''), Val a,
          Lit (py '' '' @ em_dash @ py '' unique groups/visitors: ''), Val u]))))"

fun join_lines :: "ftext list \<Rightarrow> ftext" where
  \<comment> \<open>\<open>'\<newline>'.join(lines)\<close>\<close>
  "join_lines [] = []"
| "join_lines [l] = l"
| "join_lines (l # k # ls) = l @ [Lit [10]] @ join_lines (k # ls)"

definition StatsPage_on_fetched :: "ftext \<Rightarrow> reply \<Rightarrow> ftext outcome" where
  "StatsPage_on_fetched t r =
     (if error r \<noteq> NoError then finish t [Warning (py ''Error'') [Lit (errorString r)]]
      else case parse_reply_json r of
        JList xs \<Rightarrow>
          (case collect stat_line xs of
             Inl e \<Rightarrow> abort t [] e
           | Inr lines \<Rightarrow> finish (join_lines lines) [])
      | _ \<Rightarrow> finish [Lit (py ''No stats'')] [])"

record group_form =
  group_name :: pystr
  group_description :: pystr
  group_leader :: int
  group_start :: pystr
  group_mountain :: nat

definition mountain_entry :: "json \<Rightarrow> py_error + ftext \<times> json" where
  \<comment> \<open>the label and the data of a mountain in a combo box\<close>
  "mountain_entry m =
     pybind (get m (py ''name'') JNull) (\<lambda>n.
     pybind (get m (py ''country'') JNull) (\<lambda>c.
     pybind (get m (py ''id'') JNull) (\<lambda>i.
     pybind (qt_variant i) (\<lambda>kept.
     Inr ([Val n, Lit (py '' (''), Val c, Lit (py '')'')], kept)))))"

definition currentData :: "(ftext \<times> json) list \<Rightarrow> nat \<Rightarrow> json" where
  "currentData entries i = (if i < length entries then snd (entries ! i) else JNull)"

definition group_payload :: "group_form \<Rightarrow> json \<Rightarrow> json" where
  "group_payload f mid = JDict
     [(py ''name'', JStr (group_name f)), (py ''description'', JStr (group_description f)),
      (py ''leader_id'', JInt (group_leader f)), (py ''mountain_id'', mid),
      (py ''start_date'', JStr (group_start f))]"

definition prep_add :: "ftext list \<Rightarrow> reply \<Rightarrow> group_form option \<Rightarrow> (ftext list) outcome" where
  \<comment> \<open>\<open>answer\<close>: what the user does with the form once it runs: \<open>None\<close> to cancel, or the
      accepted fields, with the index chosen in the mountain selector\<close>
  "prep_add l r answer =
     (if error r \<noteq> NoError then finish l [Warning (py ''Error'') [Lit (errorString r)]]
      else case pybind (iter (py_or (parse_reply_json r) (JList []))) (collect mountain_entry) of
        Inl e \<Rightarrow> abort l [] e
      | Inr entries \<Rightarrow>
          (let mc = ([Lit (py ''Select'')], JInt (- 1)) # entries;
               dlg = Exec (py ''Add group'')
                 [(py ''Name'', LineEdit (JStr [])), (py ''Mountain'', ComboBox mc),
                  (py ''Leader id'', SpinBox (JInt 0)), (py ''Start'', DateEdit),
                  (py ''Description'', LineEdit (JStr []))]
           in case answer of
                None \<Rightarrow> finish l [dlg]
              | Some f \<Rightarrow>
                  (let mid = currentData mc (group_mountain f)
                   in if py_eq mid (JInt (- 1))
                      then finish l [dlg, Information (py ''Info'') [Lit (py ''Select mountain'')]]
                      else finish l [dlg, Post [Lit (py ''/groups/'')] (group_payload f mid)
                                            OnGroupCreated])))"

section \<open>Group dialog\<close>

definition member_name :: "json \<Rightarrow> py_error + json" where
  \<comment> \<open>the display name of a member, as the list widget takes it\<close>
  "member_name m =
     pybind (human_name_from_climber m) (\<lambda>n. pybind (qt_text n) (\<lambda>shown. Inr (JStr shown)))"

definition on_members_fetched :: "reply \<Rightarrow> unit outcome" where
  "on_members_fetched r =
     (if error r \<noteq> NoError
      then finish () [Warning (py ''Error'')
             [Lit (py ''Failed to fetch members: ''), Val (JStr (errorString r))]]
      else let data = parse_reply_json r;
               members = (case data of
                            JDict kvs \<Rightarrow>
                              if py ''members'' \<in> set (map fst kvs)
                              then lookup kvs (py ''members'') JNull else data
                          | _ \<Rightarrow> data)
           in case members of
                JList ms \<Rightarrow>
                  (case add_each member_name ms [] of
                     (names, Some e) \<Rightarrow> abort () [] e
                   | (names, None) \<Rightarrow> finish () [Exec (py ''Members'') [([], ListWidget names)]])
              | _ \<Rightarrow> finish () [Exec (py ''Members'') [([], ListWidget [])]])"

section \<open>Main window\<close>

text \<open>
  The title is a text given to \<open>setText\<close>, or the name taken from the text of a
  selector entry: the part before its first parenthesis, stripped.
\<close>

datatype title_text = Title pystr | NameIn ftext

record main_window =
  mountain_combo :: "(ftext \<times> json) list"
  currentIndex :: int
  title_label :: title_text

definition load_mountain_combo :: "effect list" where
  "load_mountain_combo = [Get [Lit (py ''/mountains/'')] OnComboLoaded]"

definition on_combo_change :: "main_window \<Rightarrow> main_window outcome" where
  \<comment> \<open>the slot of \<open>currentIndexChanged\<close>, run with the selector at its new index\<close>
  "on_combo_change w =
     (if currentIndex w < 0 \<or> \<not> nat (currentIndex w) < length (mountain_combo w)
      then finish w []
      else let mid = currentData (mountain_combo w) (nat (currentIndex w))
           in if mid = JNull \<or> py_eq mid (JInt (- 1)) then finish w []
              else finish (w\<lparr>title_label := NameIn (fst (mountain_combo w ! nat (currentIndex w)))\<rparr>)
                     (load_mountain mid))"

definition on_combo_loaded :: "main_window \<Rightarrow> reply \<Rightarrow> main_window outcome" where
  \<comment> \<open>an empty combo box makes the first item added its current one; with the signals
      no longer blocked, \<open>setCurrentIndex(1)\<close> moves the index and so runs the slot\<close>
  "on_combo_loaded w r =
     (if error r \<noteq> NoError then finish w []
      else let entries = (case parse_reply_json r of JList xs \<Rightarrow> xs | _ \<Rightarrow> []);
               select = ([Lit (py ''Select mountain'')], JInt (- 1));
               added = add_each mountain_entry entries [select];
               w1 = w\<lparr>mountain_combo := fst added, currentIndex := 0\<rparr>
           in case snd added of
                Some e \<Rightarrow> abort w1 [] e
              | None \<Rightarrow>
                  (case entries of
                     [] \<Rightarrow> finish w1 []
                   | m # ms \<Rightarrow>
                       (let changed = on_combo_change (w1\<lparr>currentIndex := 1\<rparr>)
                        in case pybind (get m (py ''name'') JNull) (\<lambda>n.
                                pybind (qt_text (py_or n (JStr em_dash))) (\<lambda>shown.
                                pybind (get m (py ''id'') JNull) (\<lambda>mid. Inr (shown, mid)))) of
                             Inl e \<Rightarrow> abort (page changed) (emitted changed) e
                           | Inr (shown, mid) \<Rightarrow>
                               finish ((page changed)\<lparr>title_label := Title shown\<rparr>)
                                 (emitted changed @ load_mountain mid))))"

section \<open>Properties: what the claims speak of\<close>

subsection \<open>Records\<close>

text \<open>
  A group record as the groups endpoint sends it: an object whose \<open>ascent_start_date\<close>
  is a string, null or absent. Its start date as a string is the empty string in the
  last two cases.
\<close>

fun dated_record :: "json \<Rightarrow> bool" where
  "dated_record (JDict kvs) =
     (case lookup kvs (py ''ascent_start_date'') JNull of
        JNull \<Rightarrow> True | JStr s \<Rightarrow> True | _ \<Rightarrow> False)"
| "dated_record _ = False"

fun start_date :: "json \<Rightarrow> pystr" where
  "start_date (JDict kvs) =
     (case lookup kvs (py ''ascent_start_date'') JNull of JStr s \<Rightarrow> s | _ \<Rightarrow> [])"
| "start_date _ = []"

definition date_keyed :: "json \<times> json \<Rightarrow> bool" where
  \<comment> \<open>a record paired with its sort key\<close>
  "date_keyed kv \<longleftrightarrow> fst kv = JStr (start_date (snd kv))"

definition pkey :: "json \<times> json \<Rightarrow> pystr" where
  "pkey kv = start_date (snd kv)"

definition shown_groups :: "mountains_page outcome \<Rightarrow> json list" where
  \<comment> \<open>the records of the rendered group list, in the order of the list\<close>
  "shown_groups out = map item_data (groups_list (page out))"

fun value_of :: "json \<Rightarrow> pystr \<Rightarrow> json" where
  \<comment> \<open>a field of a record; null when the field is absent\<close>
  "value_of (JDict kvs) k = lookup kvs k JNull"
| "value_of _ k = JNull"

fun text_or_null :: "json \<Rightarrow> bool" where
  "text_or_null JNull = True"
| "text_or_null (JStr s) = True"
| "text_or_null _ = False"

fun text_of :: "json \<Rightarrow> pystr" where
  "text_of (JStr s) = s"
| "text_of _ = []"

text \<open>A climber record: an object whose name parts are strings, null or absent.\<close>

fun climber_record :: "json \<Rightarrow> bool" where
  "climber_record (JDict kvs) =
     (text_or_null (lookup kvs (py ''first_name'') JNull) \<and>
      text_or_null (lookup kvs (py ''middle_name'') JNull) \<and>
      text_or_null (lookup kvs (py ''last_name'') JNull))"
| "climber_record _ = False"




subsection \<open>Display names\<close>

definition name_parts :: "json \<Rightarrow> pystr list" where
  \<comment> \<open>the non-empty name parts: first, middle, last\<close>
  "name_parts c = filter (\<lambda>p. p \<noteq> [])
     [text_of (value_of c (py ''first_name'')), text_of (value_of c (py ''middle_name'')),
      text_of (value_of c (py ''last_name''))]"

definition email_or_unknown :: "json \<Rightarrow> json" where
  "email_or_unknown c =
     (if truthy (value_of c (py ''email'')) then value_of c (py ''email'')
      else JStr (py ''Unknown''))"

definition display_name_as_claimed :: "json \<Rightarrow> json" where
  \<comment> \<open>the display name in the words of the specification: the name parts joined by a
      space; the email when there is no name part; \<open>Unknown\<close> when there is no email\<close>
  "display_name_as_claimed c =
     (if name_parts c \<noteq> [] then JStr (join (py '' '') (name_parts c)) else email_or_unknown c)"

definition display_name :: "json \<Rightarrow> json" where
  \<comment> \<open>the same with the joined name stripped of surrounding whitespace\<close>
  "display_name c =
     (if strip (join (py '' '') (name_parts c)) \<noteq> []
      then JStr (strip (join (py '' '') (name_parts c))) else email_or_unknown c)"

subsection \<open>Effects and payloads\<close>

fun is_put :: "effect \<Rightarrow> bool" where
  "is_put (Put e b c) = True"
| "is_put _ = False"

fun is_post :: "effect \<Rightarrow> bool" where
  "is_post (Post e b c) = True"
| "is_post _ = False"


fun is_warning :: "effect \<Rightarrow> bool" where
  "is_warning (Warning t m) = True"
| "is_warning _ = False"

fun nonempty_list :: "json \<Rightarrow> bool" where
  \<comment> \<open>\<open>isinstance(data, list) and len(data) > 0\<close>\<close>
  "nonempty_list (JList (x # xs)) = True"
| "nonempty_list _ = False"

definition parse_fails :: "reply \<Rightarrow> bool" where
  \<comment> \<open>decoding the body or parsing its text raises\<close>
  "parse_fails r = (case pybind (decode_utf8 (readAll r)) json_loads of
                     Inl e \<Rightarrow> True | Inr v \<Rightarrow> False)"

definition both_requests :: "json \<Rightarrow> effect list" where
  \<comment> \<open>the detail request and the groups request for a mountain id\<close>
  "both_requests mid =
     [Get [Lit (py ''/mountains/''), Val mid] OnMountainDetail,
      Get [Lit (py ''/mountains/''), Val mid, Lit (py ''/groups'')] OnGroups]"

definition detail_view :: "mountains_page \<Rightarrow> json \<times> ftext \<times> ftext \<times> ftext \<times> ftext \<times> json" where
  \<comment> \<open>the detail half of the Mountains page\<close>
  "detail_view p =
     (current_mountain p, name_lbl p, height_lbl p, country_lbl p, region_lbl p, desc p)"

definition refresh_loads_as_claimed :: "mountains_page \<Rightarrow> json \<Rightarrow> json list \<Rightarrow> effect list" where
  \<comment> \<open>what a refresh with the mountains \<open>m # ms\<close> loads in the words of the specification:
      the displayed mountain if its id is in the list, the first mountain otherwise\<close>
  "refresh_loads_as_claimed p m ms =
     (if py_in (value_of (current_mountain p) (py ''id''))
           (map (\<lambda>x. value_of x (py ''id'')) (m # ms))
      then both_requests (value_of (current_mountain p) (py ''id''))
      else both_requests (value_of m (py ''id'')))"

section \<open>Shared facts\<close>

lemma page_reset:
  "p\<lparr>current_mountain := c, name_lbl := n, height_lbl := h, country_lbl := co,
      region_lbl := rg, desc := d, groups_list := g\<rparr> =
   \<lparr>current_mountain = c, name_lbl = n, height_lbl = h, country_lbl = co,
      region_lbl = rg, desc = d, groups_list = g\<rparr>"
  by (cases p) simp

lemma nonempty_list_iff: "nonempty_list v \<longleftrightarrow> (\<exists>x xs. v = JList (x # xs))"
  by (cases v rule: nonempty_list.cases) simp_all

section \<open>Sorting the groups of a mountain\<close>

lemma ascent_start_key_dated:
  "dated_record g \<Longrightarrow> ascent_start_key g = Inr (JStr (start_date g))"
  by (cases g) (auto simp: ascent_start_key_def pybind_def py_or_def split: json.splits)

lemma keyed_dated:
  "\<forall>g \<in> set gs. dated_record g \<Longrightarrow>
   keyed ascent_start_key gs = Inr (map (\<lambda>g. (JStr (start_date g), g)) gs)"
  by (induction gs) (auto simp: pybind_def ascent_start_key_dated)

lemma py_lt_dated:
  "date_keyed x \<Longrightarrow> date_keyed y \<Longrightarrow> py_lt (fst x) (fst y) = Inr (pkey x < pkey y)"
  by (simp add: date_keyed_def pkey_def)

lemma insert_py_dated:
  assumes "date_keyed x" "\<forall>y \<in> set ys. date_keyed y" "sorted (map pkey ys)"
  shows "\<exists>zs. insert_py x ys = Inr zs \<and> set zs = insert x (set ys) \<and>
           mset zs = add_mset x (mset ys) \<and> sorted (map pkey zs)"
  using assms
proof (induction ys)
  case Nil
  then show ?case by simp
next
  case (Cons y ys)
  have lt: "py_lt (fst x) (fst y) = Inr (pkey x < pkey y)"
    using Cons.prems by (simp add: py_lt_dated)
  show ?case
  proof (cases "pkey x < pkey y")
    case True
    then have "sorted (map pkey (x # y # ys))" using Cons.prems(3) by auto
    then show ?thesis using lt True by (simp add: pybind_def)
  next
    case False
    from Cons obtain zs where zs: "insert_py x ys = Inr zs" "set zs = insert x (set ys)"
      "mset zs = add_mset x (mset ys)" "sorted (map pkey zs)"
      by fastforce
    have "sorted (map pkey (y # zs))" using zs(2,4) Cons.prems(3) False by auto
    then show ?thesis using lt False zs by (simp add: pybind_def insert_commute)
  qed
qed

lemma sort_py_dated:
  assumes "\<forall>y \<in> set acc. date_keyed y" "\<forall>x \<in> set xs. date_keyed x" "sorted (map pkey acc)"
  shows "\<exists>zs. sort_py acc xs = Inr zs \<and> mset zs = mset acc + mset xs \<and> sorted (map pkey zs)"
  using assms
proof (induction xs arbitrary: acc)
  case Nil
  then show ?case by simp
next
  case (Cons x xs)
  have "date_keyed x" using Cons.prems(2) by simp
  from insert_py_dated[OF this Cons.prems(1,3)] obtain a where
    a: "insert_py x acc = Inr a" "set a = insert x (set acc)"
       "mset a = add_mset x (mset acc)" "sorted (map pkey a)"
    by blast
  have 1: "\<forall>y \<in> set a. date_keyed y" using a(2) Cons.prems by simp
  have 2: "\<forall>x \<in> set xs. date_keyed x" using Cons.prems(2) by simp
  from Cons.IH[OF 1 2 a(4)] obtain zs where
    "sort_py a xs = Inr zs" "mset zs = mset a + mset xs" "sorted (map pkey zs)" by blast
  then show ?case using a(1,3) by (simp add: pybind_def)
qed

lemma sorted_py_dated:
  assumes "\<forall>g \<in> set gs. dated_record g"
  shows "\<exists>ys. sorted_py ascent_start_key gs = Inr ys \<and> mset ys = mset gs \<and>
              sorted (map start_date ys)"
proof -
  let ?kxs = "map (\<lambda>g. (JStr (start_date g), g)) gs"
  have k: "keyed ascent_start_key gs = Inr ?kxs" using assms by (rule keyed_dated)
  have d: "\<forall>x \<in> set ?kxs. date_keyed x" by (simp add: date_keyed_def)
  have e: "\<forall>y \<in> set ([] :: (json \<times> json) list). date_keyed y" by simp
  have s: "sorted (map pkey [])" by simp
  from sort_py_dated[OF e d s] obtain zs where
    zs: "sort_py [] ?kxs = Inr zs" "mset zs = mset [] + mset ?kxs" "sorted (map pkey zs)"
    by blast
  have g: "map snd ?kxs = gs" by (simp add: comp_def)
  have "mset zs = mset ?kxs" using zs(2) by simp
  then have "mset (map snd zs) = mset (map snd ?kxs)" by (simp only: mset_map)
  then have m: "mset (map snd zs) = mset gs" by (simp only: g)
  have "pkey = start_date \<circ> snd" by (rule ext) (simp add: pkey_def)
  then have "sorted (map start_date (map snd zs))" using zs(3) by (simp only: map_map)
  then show ?thesis using k zs(1) m by (simp add: sorted_py_def pybind_def)
qed

lemma pybind_InrE:
  assumes "pybind m f = Inr y"
  obtains x where "m = Inr x" "f x = Inr y"
  using assms by (cases m) (simp_all add: pybind_def)

lemma qt_variant_same: "qt_variant v = Inr kept \<Longrightarrow> kept = v"
  by (simp add: qt_variant_def split: if_splits)

lemma render_group_data: "render_group g = Inr it \<Longrightarrow> item_data it = g"
  unfolding render_group_def by (elim pybind_InrE) (auto dest: qt_variant_same)

lemma add_each_shown:
  "\<exists>n. map item_data (fst (add_each render_group xs acc)) = map item_data acc @ take n xs"
proof (induction xs arbitrary: acc)
  case Nil
  show ?case by simp
next
  case (Cons x xs)
  show ?case
  proof (cases "render_group x")
    case (Inl e)
    have "map item_data (fst (add_each render_group (x # xs) acc)) = map item_data acc @ take 0 (x # xs)"
      using Inl by simp
    then show ?thesis by (rule exI)
  next
    case (Inr it)
    from Cons.IH[of "acc @ [it]"] obtain n where
      n: "map item_data (fst (add_each render_group xs (acc @ [it]))) =
            map item_data (acc @ [it]) @ take n xs" by blast
    have d: "item_data it = x" using Inr by (rule render_group_data)
    have "map item_data (fst (add_each render_group (x # xs) acc)) =
            map item_data acc @ take (Suc n) (x # xs)"
      by (simp add: Inr n d)
    then show ?thesis by (rule exI)
  qed
qed

lemma add_each_all:
  "snd (add_each render_group xs acc) = None \<Longrightarrow>
   map item_data (fst (add_each render_group xs acc)) = map item_data acc @ xs"
proof (induction xs arbitrary: acc)
  case Nil
  show ?case by simp
next
  case (Cons x xs)
  show ?case
  proof (cases "render_group x")
    case (Inl e)
    then show ?thesis using Cons.prems by simp
  next
    case (Inr it)
    have d: "item_data it = x" using Inr by (rule render_group_data)
    have "snd (add_each render_group xs (acc @ [it])) = None" using Cons.prems Inr by simp
    from Cons.IH[OF this] show ?thesis by (simp add: Inr d)
  qed
qed

lemma mset_take_subset: "mset (take n xs) \<subseteq># mset xs"
proof -
  have "mset xs = mset (take n xs) + mset (drop n xs)"
    by (metis append_take_drop_id mset_append)
  then show ?thesis by simp
qed

lemma on_groups_list:
  assumes "error r = NoError" "parse_reply_json r = JList gs"
    and "sorted_py ascent_start_key gs = Inr ys"
  shows "shown_groups (on_groups p r) = map item_data (fst (add_each render_group ys []))"
    and "raised (on_groups p r) = snd (add_each render_group ys [])"
  using assms by (simp_all add: on_groups_def shown_groups_def Let_def)

text \<open>
  C1. On a successful groups fetch whose payload is a list of group records, the
  rendered list is in non-decreasing order of the start dates compared as strings, a
  record with no start date or a null one counting as the empty string; the rendered
  records are records of the payload, and all of them when the handler returns.
\<close>

theorem groups_rendered_in_start_date_order:
  assumes "error r = NoError" "parse_reply_json r = JList gs"
    and "\<forall>g \<in> set gs. dated_record g"
  shows "sorted (map start_date (shown_groups (on_groups p r))) \<and>
         mset (shown_groups (on_groups p r)) \<subseteq># mset gs \<and>
         (raised (on_groups p r) = None \<longrightarrow> mset (shown_groups (on_groups p r)) = mset gs)"
proof -
  from sorted_py_dated[OF assms(3)] obtain ys where
    ys: "sorted_py ascent_start_key gs = Inr ys" "mset ys = mset gs" "sorted (map start_date ys)"
    by blast
  note shown = on_groups_list[OF assms(1,2) ys(1), of p]
  from add_each_shown[of ys "[]"] obtain n where
    n: "shown_groups (on_groups p r) = take n ys" by (auto simp: shown(1))
  have "sorted (take n (map start_date ys))" using ys(3) by (rule sorted_wrt_take)
  then have 1: "sorted (map start_date (shown_groups (on_groups p r)))"
    by (simp add: n take_map)
  have 2: "mset (shown_groups (on_groups p r)) \<subseteq># mset gs"
    using mset_take_subset[of n ys] by (simp add: n ys(2))
  have 3: "mset (shown_groups (on_groups p r)) = mset gs" if "raised (on_groups p r) = None"
  proof -
    have "snd (add_each render_group ys []) = None" using that by (simp add: shown(2))
    from add_each_all[OF this] show ?thesis by (simp add: shown(1) ys(2))
  qed
  from 1 2 3 show ?thesis by blast
qed

theorem groups_rendered_in_start_date_order_witness:
  "sorted (map start_date (shown_groups (on_groups
     \<lparr>current_mountain = JNull, name_lbl = [], height_lbl = [], country_lbl = [],
        region_lbl = [], desc = JStr [], groups_list = []\<rparr>
     \<lparr>error = 0, errorString = [], readAll = Document (JList
        [JDict [(py ''ascent_start_date'', JStr (py ''2024-05-01''))],
         JDict [(py ''name'', JStr (py ''K2 team''))],
         JDict [(py ''ascent_start_date'', JStr (py ''2023-01-15''))]])\<rparr>))) \<and>
   mset (shown_groups (on_groups
     \<lparr>current_mountain = JNull, name_lbl = [], height_lbl = [], country_lbl = [],
        region_lbl = [], desc = JStr [], groups_list = []\<rparr>
     \<lparr>error = 0, errorString = [], readAll = Document (JList
        [JDict [(py ''ascent_start_date'', JStr (py ''2024-05-01''))],
         JDict [(py ''name'', JStr (py ''K2 team''))],
         JDict [(py ''ascent_start_date'', JStr (py ''2023-01-15''))]])\<rparr>)) =
   mset [JDict [(py ''ascent_start_date'', JStr (py ''2024-05-01''))],
         JDict [(py ''name'', JStr (py ''K2 team''))],
         JDict [(py ''ascent_start_date'', JStr (py ''2023-01-15''))]]"
proof -
  let ?p = "\<lparr>current_mountain = JNull, name_lbl = [], height_lbl = [], country_lbl = [],
        region_lbl = [], desc = JStr [], groups_list = []\<rparr>"
  let ?gs = "[JDict [(py ''ascent_start_date'', JStr (py ''2024-05-01''))],
         JDict [(py ''name'', JStr (py ''K2 team''))],
         JDict [(py ''ascent_start_date'', JStr (py ''2023-01-15''))]]"
  let ?r = "\<lparr>error = 0, errorString = [], readAll = Document (JList ?gs)\<rparr>"
  have 1: "error ?r = NoError" by (simp add: NoError_def)
  have 2: "parse_reply_json ?r = JList ?gs" by (simp add: parse_reply_json_def pybind_def)
  have 3: "\<forall>g \<in> set ?gs. dated_record g" by (simp add: lookup_def py_def)
  have 4: "raised (on_groups ?p ?r) = None"
    by (simp add: on_groups_def NoError_def parse_reply_json_def pybind_def sorted_py_def
        ascent_start_key_def lookup_def py_def py_or_def render_group_def GroupCard_def
        qt_variant_def Let_def)
  from groups_rendered_in_start_date_order[OF 1 2 3, of ?p] 4 show ?thesis by blast
qed

text \<open>
  Outside such payloads the sort may raise, and the handler then renders the records in
  the order received: here the second start date is a number.
\<close>

lemma groups_mixed_dates_keep_received_order:
  "shown_groups (on_groups MountainsPage_init
     \<lparr>error = 0, errorString = [], readAll = Document (JList
        [JDict [(py ''ascent_start_date'', JStr (py ''b''))],
         JDict [(py ''ascent_start_date'', JInt 1)],
         JDict [(py ''ascent_start_date'', JStr (py ''a''))]])\<rparr>) =
   [JDict [(py ''ascent_start_date'', JStr (py ''b''))],
    JDict [(py ''ascent_start_date'', JInt 1)],
    JDict [(py ''ascent_start_date'', JStr (py ''a''))]]"
  by (simp add: shown_groups_def on_groups_def NoError_def parse_reply_json_def pybind_def
      sorted_py_def ascent_start_key_def lookup_def py_def py_or_def render_group_def
      GroupCard_def qt_variant_def MountainsPage_init_def Let_def)

section \<open>Display name of a climber\<close>

lemma py_or_text: "text_or_null v \<Longrightarrow> py_or v (JStr []) = JStr (text_of v)"
  by (cases v) (simp_all add: py_or_def)

lemma str_items_texts:
  "str_items (filter truthy (map JStr ss)) = Inr (filter (\<lambda>p. p \<noteq> []) ss)"
  by (induction ss) (simp_all add: pybind_def)

text \<open>
  C2, as amended. For a climber record, the display name is the non-empty name parts
  (first, middle, last) joined by single spaces and stripped of leading and trailing
  whitespace; when that is empty (no name part, or only whitespace) it is the email; when
  the email is empty, null or absent it is \<open>Unknown\<close>.
\<close>

theorem display_name_of_climber:
  assumes "climber_record c"
  shows "human_name_from_climber c = Inr (display_name c)"
proof (cases c)
  case (JDict kvs)
  let ?f = "lookup kvs (py ''first_name'') JNull"
  let ?m = "lookup kvs (py ''middle_name'') JNull"
  let ?l = "lookup kvs (py ''last_name'') JNull"
  have t: "text_or_null ?f" "text_or_null ?m" "text_or_null ?l"
    using assms JDict by simp_all
  have parts: "[py_or ?f (JStr []), py_or ?m (JStr []), py_or ?l (JStr [])] =
                 map JStr [text_of ?f, text_of ?m, text_of ?l]"
    using t by (simp add: py_or_text)
  have items: "str_items (filter truthy [py_or ?f (JStr []), py_or ?m (JStr []), py_or ?l (JStr [])]) =
                 Inr (name_parts c)"
    unfolding parts str_items_texts by (simp add: name_parts_def JDict)
  show ?thesis
    unfolding human_name_from_climber_def JDict get.simps pybind_def sum.case Let_def
      items[unfolded JDict]
    by (simp add: display_name_def email_or_unknown_def py_or_def)
qed (use assms in simp_all)

text \<open>
  C2 as the specification words it, without the stripping, fails on a first name that
  starts with a space: the function returns \<open>Al\<close>, where the joined parts keep the
  space in front.
\<close>

theorem display_name_unstripped_counterexample:
  "human_name_from_climber (JDict [(py ''first_name'', JStr (py '' Al''))]) \<noteq>
   Inr (display_name_as_claimed (JDict [(py ''first_name'', JStr (py '' Al''))]))"
  by (simp add: human_name_from_climber_def pybind_def lookup_def py_def py_or_def strip_def
      is_space_def display_name_as_claimed_def name_parts_def)

theorem display_name_of_climber_witness:
  "human_name_from_climber (JDict [(py ''first_name'', JStr (py '' Ann'')),
      (py ''middle_name'', JNull), (py ''last_name'', JStr (py ''Lee''))]) =
   Inr (JStr (py ''Ann Lee''))"
proof -
  let ?c = "JDict [(py ''first_name'', JStr (py '' Ann'')),
      (py ''middle_name'', JNull), (py ''last_name'', JStr (py ''Lee''))]"
  have "climber_record ?c" by (simp add: lookup_def py_def)
  from display_name_of_climber[OF this] have "human_name_from_climber ?c = Inr (display_name ?c)" .
  moreover have "display_name ?c = JStr (py ''Ann Lee'')"
    by (simp add: lookup_def py_def display_name_def name_parts_def strip_def is_space_def)
  ultimately show ?thesis by simp
qed

section \<open>Editing a mountain\<close>

lemma check_groups_refused:
  "error r = NoError \<Longrightarrow> nonempty_list (parse_reply_json r) \<Longrightarrow>
   on_check_groups_before_edit p r answer =
     finish p [Information (py ''Info'')
       [Lit (py ''Cannot edit mountain: ascents exist for this mountain'')]]"
  by (auto simp: on_check_groups_before_edit_def nonempty_list_iff)





text \<open>
  A selected mountain whose height is a string is not such a record: building the form
  raises, no dialog runs and no PUT is sent.
\<close>

lemma edit_form_refuses_text_height:
  "on_check_groups_before_edit
      (MountainsPage_init\<lparr>current_mountain :=
         JDict [(py ''id'', JInt 3), (py ''height'', JStr (py ''8848''))]\<rparr>)
      \<lparr>error = 0, errorString = [], readAll = Document (JList [])\<rparr> answer =
   abort (MountainsPage_init\<lparr>current_mountain :=
         JDict [(py ''id'', JInt 3), (py ''height'', JStr (py ''8848''))]\<rparr>) [] TypeError"
  by (simp add: on_check_groups_before_edit_def NoError_def parse_reply_json_def pybind_def
      edit_rows_def lookup_def py_def py_or_def)

lemma on_edit_no_put: "filter is_put (emitted (on_edit p)) = []"
  by (simp add: on_edit_def finish_def abort_def split: sum.splits)

text \<open>
  C3. When the groups fetch made before an edit succeeds with a non-empty list, the
  edit is refused: the handler shows one informational message, sends no PUT and leaves
  the page as it was, whatever the user would have entered. The edit button itself only
  issues the fetch.
\<close>

theorem edit_refused_when_groups_exist:
  assumes "error r = NoError" "parse_reply_json r = JList (g # gs)"
  shows "page (on_check_groups_before_edit p r answer) = p \<and>
         raised (on_check_groups_before_edit p r answer) = None \<and>
         emitted (on_check_groups_before_edit p r answer) =
           [Information (py ''Info'')
              [Lit (py ''Cannot edit mountain: ascents exist for this mountain'')]] \<and>
         filter is_put (emitted (on_check_groups_before_edit p r answer)) = [] \<and>
         filter is_put (emitted (on_edit p)) = []"
  using assms by (simp add: check_groups_refused finish_def on_edit_no_put)

theorem edit_refused_when_groups_exist_witness:
  "emitted (on_check_groups_before_edit
      (MountainsPage_init\<lparr>current_mountain := JDict [(py ''id'', JInt 3)]\<rparr>)
      \<lparr>error = 0, errorString = [],
         readAll = Document (JList [JDict [(py ''name'', JStr (py ''A''))]])\<rparr>
      (Some \<lparr>form_name = py ''K2'', form_height = 8611, form_country = [],
              form_region = [], form_description = []\<rparr>)) =
     [Information (py ''Info'')
        [Lit (py ''Cannot edit mountain: ascents exist for this mountain'')]]"
proof -
  let ?r = "\<lparr>error = 0, errorString = [],
         readAll = Document (JList [JDict [(py ''name'', JStr (py ''A''))]])\<rparr>"
  have 1: "error ?r = NoError" by (simp add: NoError_def)
  have 2: "parse_reply_json ?r = JList [JDict [(py ''name'', JStr (py ''A''))]]"
    by (simp add: parse_reply_json_def pybind_def)
  from edit_refused_when_groups_exist[OF 1 2] show ?thesis by blast
qed



section \<open>The two halves of the Mountains page\<close>

text \<open>
  C10. A successful groups fetch whose payload is not a list leaves the group list
  empty; a successful detail fetch whose payload is not an object leaves the page, and so
  the detail fields, as they were.
\<close>

theorem groups_cleared_detail_kept:
  "(error r = NoError \<and> \<not> is_list (parse_reply_json r) \<longrightarrow>
      on_groups p r = finish (p\<lparr>groups_list := []\<rparr>) []) \<and>
   (error r = NoError \<and> \<not> is_dict (parse_reply_json r) \<longrightarrow>
      on_mountain_detail p r = finish p [])"
proof (intro conjI impI)
  assume "error r = NoError \<and> \<not> is_list (parse_reply_json r)"
  then show "on_groups p r = finish (p\<lparr>groups_list := []\<rparr>) []"
    by (cases "parse_reply_json r") (simp_all add: on_groups_def)
next
  assume "error r = NoError \<and> \<not> is_dict (parse_reply_json r)"
  then show "on_mountain_detail p r = finish p []"
    by (cases "parse_reply_json r") (simp_all add: on_mountain_detail_def)
qed

theorem groups_cleared_detail_kept_witness:
  "on_groups
      (MountainsPage_init\<lparr>groups_list :=
        [\<lparr>item_data = JNull, item_widget = \<lparr>title = JNull, meta = [], description = JNull\<rparr>\<rparr>]\<rparr>)
      \<lparr>error = 0, errorString = [], readAll = Unparsable\<rparr> =
     finish MountainsPage_init [] \<and>
   on_mountain_detail
      (MountainsPage_init\<lparr>name_lbl := [Lit (py ''Name: ''), Val (JStr (py ''Everest''))]\<rparr>)
      \<lparr>error = 0, errorString = [], readAll = Document (JList [])\<rparr> =
     finish (MountainsPage_init\<lparr>name_lbl := [Lit (py ''Name: ''), Val (JStr (py ''Everest''))]\<rparr>) []"
proof -
  let ?p = "MountainsPage_init\<lparr>groups_list :=
        [\<lparr>item_data = JNull, item_widget = \<lparr>title = JNull, meta = [], description = JNull\<rparr>\<rparr>]\<rparr>"
  let ?q = "MountainsPage_init\<lparr>name_lbl := [Lit (py ''Name: ''), Val (JStr (py ''Everest''))]\<rparr>"
  let ?r = "\<lparr>error = 0, errorString = [], readAll = Unparsable\<rparr>"
  let ?s = "\<lparr>error = 0, errorString = [], readAll = Document (JList [])\<rparr>"
  have 1: "error ?r = NoError \<and> \<not> is_list (parse_reply_json ?r)"
    by (simp add: NoError_def parse_reply_json_def pybind_def)
  have 2: "error ?s = NoError \<and> \<not> is_dict (parse_reply_json ?s)"
    by (simp add: NoError_def parse_reply_json_def pybind_def)
  have 3: "?p\<lparr>groups_list := []\<rparr> = MountainsPage_init" by (simp add: MountainsPage_init_def)
  from groups_cleared_detail_kept[of ?r ?p] 1 have "on_groups ?p ?r = finish (?p\<lparr>groups_list := []\<rparr>) []"
    by blast
  moreover from groups_cleared_detail_kept[of ?s ?q] 2 have "on_mountain_detail ?q ?s = finish ?q []"
    by blast
  ultimately show ?thesis by (simp only: 3 simp_thms)
qed

lemma detail_keeps_groups: "groups_list (page (on_mountain_detail p r)) = groups_list p"
  by (simp add: on_mountain_detail_def finish_def abort_def Let_def split: json.splits sum.splits)

lemma groups_keeps_detail: "detail_view (page (on_groups p r)) = detail_view p"
  by (simp add: on_groups_def finish_def detail_view_def Let_def split: json.splits)

text \<open>
  C8, as amended. For a mountain id that is not empty (not null, zero, false or an
  empty string), \<open>load_mountain\<close> sends the detail request and the groups request; for
  an empty id it sends nothing. The detail callback leaves the group list as it was, the
  groups callback leaves the detail half as it was, and the page after both callbacks is
  the same in either order of completion.
\<close>

theorem load_mountain_requests_and_halves:
  "(truthy mid \<longrightarrow> load_mountain mid = both_requests mid) \<and>
   (\<not> truthy mid \<longrightarrow> load_mountain mid = []) \<and>
   groups_list (page (on_mountain_detail p r1)) = groups_list p \<and>
   detail_view (page (on_groups p r2)) = detail_view p \<and>
   page (on_groups (page (on_mountain_detail p r1)) r2) =
     page (on_mountain_detail (page (on_groups p r2)) r1)"
proof -
  have "page (on_groups (page (on_mountain_detail p r1)) r2) =
     page (on_mountain_detail (page (on_groups p r2)) r1)"
    by (simp add: on_groups_def on_mountain_detail_def finish_def abort_def Let_def
        split: json.splits sum.splits)
  then show ?thesis
    by (simp add: load_mountain_def both_requests_def detail_keeps_groups groups_keeps_detail)
qed

text \<open>
  C8 as the specification words it, for every id and unconditionally, fails for the
  id 0: no request is sent.
\<close>

theorem load_mountain_falsy_id_counterexample:
  "load_mountain (JInt 0) \<noteq> both_requests (JInt 0)"
  by (simp add: load_mountain_def both_requests_def)

theorem load_mountain_requests_and_halves_witness:
  "load_mountain (JInt 7) =
     [Get [Lit (py ''/mountains/''), Val (JInt 7)] OnMountainDetail,
      Get [Lit (py ''/mountains/''), Val (JInt 7), Lit (py ''/groups'')] OnGroups]"
proof -
  have "truthy (JInt 7)" by simp
  with load_mountain_requests_and_halves[of "JInt 7"] have "load_mountain (JInt 7) = both_requests (JInt 7)"
    by blast
  then show ?thesis by (simp add: both_requests_def)
qed

section \<open>Refreshing the list of mountains\<close>

lemma get_dict: "is_dict x \<Longrightarrow> get x k JNull = Inr (value_of x k)"
  by (cases x) simp_all

lemma collect_ids:
  "\<forall>x \<in> set xs. is_dict x \<Longrightarrow>
   collect (\<lambda>x. get x k JNull) xs = Inr (map (\<lambda>x. value_of x k) xs)"
  by (induction xs) (simp_all add: pybind_def get_dict)

lemma current_id_value:
  "(case current_mountain p of JDict kvs \<Rightarrow> lookup kvs k JNull | _ \<Rightarrow> JNull) =
   value_of (current_mountain p) k"
  by (cases "current_mountain p") simp_all

lemma load_mountain_both:
  "load_mountain mid = (if truthy mid then both_requests mid else [])"
  by (simp add: load_mountain_def both_requests_def)

lemma refresh_fetched_nonempty:
  assumes "error r = NoError" "parse_reply_json r = JList (m # ms)"
    and "\<forall>x \<in> set (m # ms). is_dict x"
  shows "on_refresh_fetched p r = finish p
     (if truthy (value_of (current_mountain p) (py ''id'')) \<and>
         py_in (value_of (current_mountain p) (py ''id''))
           (map (\<lambda>x. value_of x (py ''id'')) (m # ms))
      then both_requests (value_of (current_mountain p) (py ''id''))
      else if truthy (value_of m (py ''id'')) then both_requests (value_of m (py ''id''))
      else [])"
proof -
  have ids: "collect (\<lambda>x. get x (py ''id'') JNull) (m # ms) =
               Inr (map (\<lambda>x. value_of x (py ''id'')) (m # ms))"
    using assms(3) by (rule collect_ids)
  have m: "get m (py ''id'') JNull = Inr (value_of m (py ''id''))"
    using assms(3) by (simp add: get_dict)
  show ?thesis
    unfolding on_refresh_fetched_def current_id_value Let_def
    by (simp only: assms(1,2) ids m load_mountain_both json.case list.case sum.case
          if_False simp_thms split: if_splits) simp
qed

lemma refresh_fetched_empty:
  assumes "error r = NoError" "\<not> nonempty_list (parse_reply_json r)"
  shows "on_refresh_fetched p r = finish MountainsPage_init []"
  using assms
  by (cases "parse_reply_json r" rule: nonempty_list.cases)
     (simp_all add: on_refresh_fetched_def MountainsPage_init_def page_reset)

text \<open>
  C7, as amended. A page outside the main window fetches the list of mountains itself;
  inside it the refresh is the selector's reload. After a successful fetch of the page's
  own of a non-empty list of mountain records, the page sends the two requests for the
  displayed mountain when its id is not empty and is in the list of the fetched ids, by
  Python's \<open>in\<close>; otherwise it sends them for the first mountain of the list when
  that id is not empty, and sends nothing when it is empty. The page itself is left as
  it was. When the payload is an empty list, or no list, the page is put back to its
  initial state: no mountain, placeholder labels, no groups.
\<close>

theorem refresh_reselects_or_loads_first:
  assumes "error r = NoError"
  shows "on_refresh False = [Get [Lit (py ''/mountains/'')] OnRefreshFetched] \<and>
         on_refresh True = load_mountain_combo \<and>
         (parse_reply_json r = JList (m # ms) \<and> (\<forall>x \<in> set (m # ms). is_dict x) \<longrightarrow>
           on_refresh_fetched p r = finish p
             (if truthy (value_of (current_mountain p) (py ''id'')) \<and>
                 py_in (value_of (current_mountain p) (py ''id''))
                   (map (\<lambda>x. value_of x (py ''id'')) (m # ms))
              then both_requests (value_of (current_mountain p) (py ''id''))
              else if truthy (value_of m (py ''id'')) then both_requests (value_of m (py ''id''))
              else [])) \<and>
         (\<not> nonempty_list (parse_reply_json r) \<longrightarrow>
           on_refresh_fetched p r = finish MountainsPage_init [])"
proof -
  have "on_refresh False = [Get [Lit (py ''/mountains/'')] OnRefreshFetched] \<and>
        on_refresh True = load_mountain_combo"
    by (simp add: on_refresh_def load_mountain_combo_def)
  with refresh_fetched_nonempty[OF assms] refresh_fetched_empty[OF assms] show ?thesis
    by blast
qed

text \<open>
  C7 as the specification words it fails when the first mountain has the id 0 and no
  mountain is displayed: the first mountain is not loaded.
\<close>

theorem refresh_first_falsy_id_counterexample:
  "emitted (on_refresh_fetched MountainsPage_init
      \<lparr>error = 0, errorString = [],
         readAll = Document (JList [JDict [(py ''id'', JInt 0), (py ''name'', JStr (py ''Base''))]])\<rparr>) \<noteq>
   refresh_loads_as_claimed MountainsPage_init
      (JDict [(py ''id'', JInt 0), (py ''name'', JStr (py ''Base''))]) []"
  by (simp add: on_refresh_fetched_def NoError_def parse_reply_json_def pybind_def
      MountainsPage_init_def lookup_def py_def py_in_def refresh_loads_as_claimed_def
      both_requests_def load_mountain_def finish_def)

theorem refresh_reselects_or_loads_first_witness:
  "on_refresh_fetched (MountainsPage_init\<lparr>current_mountain := JDict [(py ''id'', JInt 2)]\<rparr>)
      \<lparr>error = 0, errorString = [],
         readAll = Document (JList [JDict [(py ''id'', JInt 1)], JDict [(py ''id'', JInt 2)]])\<rparr> =
   finish (MountainsPage_init\<lparr>current_mountain := JDict [(py ''id'', JInt 2)]\<rparr>)
      (both_requests (JInt 2))"
proof -
  let ?p = "MountainsPage_init\<lparr>current_mountain := JDict [(py ''id'', JInt 2)]\<rparr>"
  let ?m = "JDict [(py ''id'', JInt 1)]"
  let ?ms = "[JDict [(py ''id'', JInt 2)]]"
  let ?r = "\<lparr>error = 0, errorString = [], readAll = Document (JList (?m # ?ms))\<rparr>"
  have 1: "error ?r = NoError" by (simp add: NoError_def)
  have 2: "parse_reply_json ?r = JList (?m # ?ms) \<and> (\<forall>x \<in> set (?m # ?ms). is_dict x)"
    by (simp add: parse_reply_json_def pybind_def)
  have 3: "truthy (value_of (current_mountain ?p) (py ''id'')) \<and>
           py_in (value_of (current_mountain ?p) (py ''id''))
             (map (\<lambda>x. value_of x (py ''id'')) (?m # ?ms))"
    by (simp add: lookup_def py_in_def)
  have 4: "value_of (current_mountain ?p) (py ''id'') = JInt 2" by (simp add: lookup_def)
  from refresh_reselects_or_loads_first[OF 1, of ?m ?ms ?p] 2 3 4 show ?thesis by simp
qed

text \<open>
  An id that is NaN is found in the fetched list, being the same object there, and the
  displayed mountain is reloaded.
\<close>

lemma refresh_reloads_nan_id:
  "on_refresh_fetched (MountainsPage_init\<lparr>current_mountain := JDict [(py ''id'', JFloat NaN)]\<rparr>)
      \<lparr>error = 0, errorString = [],
         readAll = Document (JList [JDict [(py ''id'', JInt 1)], JDict [(py ''id'', JFloat NaN)]])\<rparr> =
   finish (MountainsPage_init\<lparr>current_mountain := JDict [(py ''id'', JFloat NaN)]\<rparr>)
      (both_requests (JFloat NaN))"
  by (simp add: on_refresh_fetched_def NoError_def parse_reply_json_def pybind_def lookup_def
      py_def py_in_def load_mountain_def both_requests_def Let_def)

section \<open>Creating a group\<close>

lemma prep_add_entries:
  assumes "error r = NoError"
    and "pybind (iter (py_or (parse_reply_json r) (JList []))) (collect mountain_entry) = Inr entries"
  shows "prep_add l r (Some f) =
     (if py_eq (currentData (([Lit (py ''Select'')], JInt (- 1)) # entries) (group_mountain f)) (JInt (- 1))
      then finish l [Exec (py ''Add group'')
                 [(py ''Name'', LineEdit (JStr [])),
                  (py ''Mountain'', ComboBox (([Lit (py ''Select'')], JInt (- 1)) # entries)),
                  (py ''Leader id'', SpinBox (JInt 0)), (py ''Start'', DateEdit),
                  (py ''Description'', LineEdit (JStr []))],
              Information (py ''Info'') [Lit (py ''Select mountain'')]]
      else finish l [Exec (py ''Add group'')
                 [(py ''Name'', LineEdit (JStr [])),
                  (py ''Mountain'', ComboBox (([Lit (py ''Select'')], JInt (- 1)) # entries)),
                  (py ''Leader id'', SpinBox (JInt 0)), (py ''Start'', DateEdit),
                  (py ''Description'', LineEdit (JStr []))],
              Post [Lit (py ''/groups/'')]
                (group_payload f (currentData (([Lit (py ''Select'')], JInt (- 1)) # entries)
                   (group_mountain f))) OnGroupCreated])"
  unfolding prep_add_def Let_def by (simp only: assms sum.case option.case if_False simp_thms)

text \<open>
  C6. When the form of the group page is accepted with the mountain selector on an
  entry whose data equals the sentinel -1, the first entry being that one, no POST is
  sent: the handler runs the form, shows one informational message and leaves the page
  as it was.
\<close>

theorem group_creation_refused_at_sentinel:
  assumes "error r = NoError"
    and "pybind (iter (py_or (parse_reply_json r) (JList []))) (collect mountain_entry) = Inr entries"
    and "py_eq (currentData (([Lit (py ''Select'')], JInt (- 1)) # entries) (group_mountain f)) (JInt (- 1))"
  shows "page (prep_add l r (Some f)) = l \<and>
         raised (prep_add l r (Some f)) = None \<and>
         filter is_post (emitted (prep_add l r (Some f))) = [] \<and>
         emitted (prep_add l r (Some f)) =
           [Exec (py ''Add group'')
              [(py ''Name'', LineEdit (JStr [])),
               (py ''Mountain'', ComboBox (([Lit (py ''Select'')], JInt (- 1)) # entries)),
               (py ''Leader id'', SpinBox (JInt 0)), (py ''Start'', DateEdit),
               (py ''Description'', LineEdit (JStr []))],
            Information (py ''Info'') [Lit (py ''Select mountain'')]]"
  unfolding prep_add_entries[OF assms(1,2)] using assms(3) by (simp add: finish_def)

theorem group_creation_refused_at_sentinel_witness:
  "filter is_post (emitted (prep_add []
      \<lparr>error = 0, errorString = [],
         readAll = Document (JList [JDict [(py ''id'', JInt 7), (py ''name'', JStr (py ''K2''))]])\<rparr>
      (Some \<lparr>group_name = py ''A'', group_description = [], group_leader = 1,
              group_start = py ''2024-01-01'', group_mountain = 0\<rparr>))) = [] \<and>
   filter is_post (emitted (prep_add []
      \<lparr>error = 0, errorString = [],
         readAll = Document (JList [JDict [(py ''id'', JInt 7), (py ''name'', JStr (py ''K2''))]])\<rparr>
      (Some \<lparr>group_name = py ''A'', group_description = [], group_leader = 1,
              group_start = py ''2024-01-01'', group_mountain = 1\<rparr>))) \<noteq> []"
proof -
  let ?r = "\<lparr>error = 0, errorString = [],
         readAll = Document (JList [JDict [(py ''id'', JInt 7), (py ''name'', JStr (py ''K2''))]])\<rparr>"
  let ?f = "\<lparr>group_name = py ''A'', group_description = [], group_leader = 1,
              group_start = py ''2024-01-01'', group_mountain = 0\<rparr>"
  let ?es = "[([Val (JStr (py ''K2'')), Lit (py '' (''), Val JNull, Lit (py '')'')], JInt 7)]"
  have 1: "error ?r = NoError" by (simp add: NoError_def)
  have 2: "pybind (iter (py_or (parse_reply_json ?r) (JList []))) (collect mountain_entry) = Inr ?es"
    by (simp add: parse_reply_json_def pybind_def py_or_def mountain_entry_def lookup_def py_def
        qt_variant_def)
  have 3: "py_eq (currentData (([Lit (py ''Select'')], JInt (- 1)) # ?es) (group_mountain ?f)) (JInt (- 1))"
    by (simp add: currentData_def py_eq_def)
  have 4: "filter is_post (emitted (prep_add [] ?r (Some (?f\<lparr>group_mountain := 1\<rparr>)))) \<noteq> []"
    unfolding prep_add_entries[OF 1 2] by (simp add: currentData_def finish_def py_eq_def)
  from group_creation_refused_at_sentinel[OF 1 2 3, of "[]"] 4 show ?thesis by simp
qed

section \<open>Transport errors\<close>

lemma detail_error:
  "error r \<noteq> NoError \<Longrightarrow> on_mountain_detail p r =
     finish p [Warning (py ''Error'')
       [Lit (py ''Failed to load mountain: ''), Val (JStr (errorString r))]]"
  by (simp add: on_mountain_detail_def)

lemma groups_error:
  "error r \<noteq> NoError \<Longrightarrow> on_groups p r =
     finish p [Warning (py ''Error'')
       [Lit (py ''Failed to load groups: ''), Val (JStr (errorString r))]]"
  by (simp add: on_groups_def)

lemma refresh_error:
  "error r \<noteq> NoError \<Longrightarrow> on_refresh_fetched p r =
     finish p [Warning (py ''Error'')
       [Lit (py ''Failed to refresh mountains: ''), Val (JStr (errorString r))]]"
  by (simp add: on_refresh_fetched_def)

lemma check_error:
  "error r \<noteq> NoError \<Longrightarrow> on_check_groups_before_edit p r answer =
     finish p [Warning (py ''Error'') [Lit (py ''Failed: ''), Val (JStr (errorString r))]]"
  by (simp add: on_check_groups_before_edit_def)

lemma climbers_error:
  "error r \<noteq> NoError \<Longrightarrow> ClimbersPage_on_fetched l r =
     finish l [Warning (py ''Error'') [Lit (errorString r)]]"
  by (simp add: ClimbersPage_on_fetched_def)

lemma groups_page_error:
  "error r \<noteq> NoError \<Longrightarrow> GroupsPage_on_fetched l r =
     finish l [Warning (py ''Error'') [Lit (errorString r)]]"
  by (simp add: GroupsPage_on_fetched_def)

lemma ascents_error:
  "error r \<noteq> NoError \<Longrightarrow> AscentsPage_on_fetched l r =
     finish l [Warning (py ''Error'') [Lit (errorString r)]]"
  by (simp add: AscentsPage_on_fetched_def)

lemma stats_error:
  "error r \<noteq> NoError \<Longrightarrow> StatsPage_on_fetched t r =
     finish t [Warning (py ''Error'') [Lit (errorString r)]]"
  by (simp add: StatsPage_on_fetched_def)

lemma prep_add_error:
  "error r \<noteq> NoError \<Longrightarrow> prep_add l r ga =
     finish l [Warning (py ''Error'') [Lit (errorString r)]]"
  by (simp add: prep_add_def)

lemma members_error:
  "error r \<noteq> NoError \<Longrightarrow> on_members_fetched r =
     finish () [Warning (py ''Error'')
       [Lit (py ''Failed to fetch members: ''), Val (JStr (errorString r))]]"
  by (simp add: on_members_fetched_def)

lemma combo_error: "error r \<noteq> NoError \<Longrightarrow> on_combo_loaded w r = finish w []"
  by (simp add: on_combo_loaded_def)

text \<open>
  C4, as amended. When a fetch completes with a transport error, the handler leaves
  its list or detail view as it was; each handler of a page or of the group dialog shows
  exactly one warning and does nothing else. The handler of the top selector leaves the
  selector and the title as they were.
\<close>

theorem transport_error_leaves_view_and_warns_once:
  assumes "error r \<noteq> NoError"
  shows "on_mountain_detail p r =
           finish p [Warning (py ''Error'')
             [Lit (py ''Failed to load mountain: ''), Val (JStr (errorString r))]] \<and>
         on_groups p r =
           finish p [Warning (py ''Error'')
             [Lit (py ''Failed to load groups: ''), Val (JStr (errorString r))]] \<and>
         on_refresh_fetched p r =
           finish p [Warning (py ''Error'')
             [Lit (py ''Failed to refresh mountains: ''), Val (JStr (errorString r))]] \<and>
         on_check_groups_before_edit p r answer =
           finish p [Warning (py ''Error'') [Lit (py ''Failed: ''), Val (JStr (errorString r))]] \<and>
         ClimbersPage_on_fetched l r = finish l [Warning (py ''Error'') [Lit (errorString r)]] \<and>
         GroupsPage_on_fetched l r = finish l [Warning (py ''Error'') [Lit (errorString r)]] \<and>
         AscentsPage_on_fetched l r = finish l [Warning (py ''Error'') [Lit (errorString r)]] \<and>
         StatsPage_on_fetched t r = finish t [Warning (py ''Error'') [Lit (errorString r)]] \<and>
         prep_add l r ga = finish l [Warning (py ''Error'') [Lit (errorString r)]] \<and>
         on_members_fetched r =
           finish () [Warning (py ''Error'')
             [Lit (py ''Failed to fetch members: ''), Val (JStr (errorString r))]] \<and>
         page (on_combo_loaded w r) = w"
  by (simp only: detail_error[OF assms] groups_error[OF assms] refresh_error[OF assms]
      check_error[OF assms] climbers_error[OF assms] groups_page_error[OF assms]
      ascents_error[OF assms] stats_error[OF assms] prep_add_error[OF assms]
      members_error[OF assms] combo_error[OF assms] finish_def outcome.simps simp_thms)

text \<open>
  C4 as the specification words it, exactly one notification for every fetch, fails
  for the fetch of the top selector: its handler returns without a message.
\<close>

theorem combo_load_error_silent_counterexample:
  "length (filter is_warning (emitted (on_combo_loaded
      \<lparr>mountain_combo = [], currentIndex = - 1, title_label = Title em_dash\<rparr>
      \<lparr>error = 1, errorString = py ''Connection refused'', readAll = Undecodable\<rparr>))) \<noteq> 1"
  by (simp add: on_combo_loaded_def NoError_def finish_def)

theorem transport_error_leaves_view_and_warns_once_witness:
  "on_groups MountainsPage_init
      \<lparr>error = 1, errorString = py ''Connection refused'', readAll = Undecodable\<rparr> =
   finish MountainsPage_init [Warning (py ''Error'')
      [Lit (py ''Failed to load groups: ''), Val (JStr (py ''Connection refused''))]]"
proof -
  let ?r = "\<lparr>error = 1, errorString = py ''Connection refused'', readAll = Undecodable\<rparr>"
  have "error ?r \<noteq> NoError" by (simp add: NoError_def)
  from transport_error_leaves_view_and_warns_once[OF this, of MountainsPage_init]
  have "on_groups MountainsPage_init ?r =
           finish MountainsPage_init [Warning (py ''Error'')
             [Lit (py ''Failed to load groups: ''), Val (JStr (errorString ?r))]]"
    by (rule conjunct1[OF conjunct2])
  then show ?thesis by simp
qed

section \<open>Bodies that do not parse\<close>

lemma parse_fails_null: "parse_fails r \<Longrightarrow> parse_reply_json r = JNull"
  by (simp add: parse_fails_def parse_reply_json_def split: sum.splits)

lemma null_detail: "error r = NoError \<Longrightarrow> parse_reply_json r = JNull \<Longrightarrow>
    on_mountain_detail p r = finish p []"
  by (simp add: on_mountain_detail_def)

lemma null_groups: "error r = NoError \<Longrightarrow> parse_reply_json r = JNull \<Longrightarrow>
    on_groups p r = finish (p\<lparr>groups_list := []\<rparr>) []"
  by (simp add: on_groups_def)

lemma null_refresh: "error r = NoError \<Longrightarrow> parse_reply_json r = JNull \<Longrightarrow>
    on_refresh_fetched p r = finish MountainsPage_init []"
  by (simp add: on_refresh_fetched_def MountainsPage_init_def page_reset)

lemma null_climbers: "error r = NoError \<Longrightarrow> parse_reply_json r = JNull \<Longrightarrow>
    ClimbersPage_on_fetched l r = finish [] []"
  by (simp add: ClimbersPage_on_fetched_def)

lemma null_groups_page: "error r = NoError \<Longrightarrow> parse_reply_json r = JNull \<Longrightarrow>
    GroupsPage_on_fetched l r = finish [] []"
  by (simp add: GroupsPage_on_fetched_def)

lemma null_ascents: "error r = NoError \<Longrightarrow> parse_reply_json r = JNull \<Longrightarrow>
    AscentsPage_on_fetched l r = finish [] []"
  by (simp add: AscentsPage_on_fetched_def)

lemma null_stats: "error r = NoError \<Longrightarrow> parse_reply_json r = JNull \<Longrightarrow>
    StatsPage_on_fetched t r = finish [Lit (py ''No stats'')] []"
  by (simp add: StatsPage_on_fetched_def)

lemma null_combo: "error r = NoError \<Longrightarrow> parse_reply_json r = JNull \<Longrightarrow>
    on_combo_loaded w r =
      finish (w\<lparr>mountain_combo := [([Lit (py ''Select mountain'')], JInt (- 1))],
                currentIndex := 0\<rparr>) []"
  by (simp add: on_combo_loaded_def)

lemma null_members: "error r = NoError \<Longrightarrow> parse_reply_json r = JNull \<Longrightarrow>
    on_members_fetched r = finish () [Exec (py ''Members'') [([], ListWidget [])]]"
  by (simp add: on_members_fetched_def)

lemma null_prep_add: "error r = NoError \<Longrightarrow> parse_reply_json r = JNull \<Longrightarrow>
    prep_add l r None =
      finish l [Exec (py ''Add group'')
        [(py ''Name'', LineEdit (JStr [])),
         (py ''Mountain'', ComboBox [([Lit (py ''Select'')], JInt (- 1))]),
         (py ''Leader id'', SpinBox (JInt 0)), (py ''Start'', DateEdit),
         (py ''Description'', LineEdit (JStr []))]]"
  by (simp add: prep_add_def py_or_def pybind_def)

text \<open>
  C5, as amended. When a fetch completes without a transport error and decoding or
  parsing its body raises, the payload is null and no handler below raises: the group
  list and the lists of the Climbers, Groups and Ascents pages become empty, the Stats
  page shows \<open>No stats\<close>, the refresh handler puts the Mountains page back to its
  initial state, the top selector holds its placeholder entry only, the members dialog
  and the group form run with nothing to choose from, and the detail handler leaves the
  page as it was.
\<close>

theorem parse_failure_is_null_payload:
  assumes "error r = NoError" "parse_fails r"
  shows "parse_reply_json r = JNull \<and>
         on_groups p r = finish (p\<lparr>groups_list := []\<rparr>) [] \<and>
         on_refresh_fetched p r = finish MountainsPage_init [] \<and>
         ClimbersPage_on_fetched l r = finish [] [] \<and>
         GroupsPage_on_fetched l r = finish [] [] \<and>
         AscentsPage_on_fetched l r = finish [] [] \<and>
         StatsPage_on_fetched t r = finish [Lit (py ''No stats'')] [] \<and>
         on_combo_loaded w r =
           finish (w\<lparr>mountain_combo := [([Lit (py ''Select mountain'')], JInt (- 1))],
                     currentIndex := 0\<rparr>) [] \<and>
         on_members_fetched r = finish () [Exec (py ''Members'') [([], ListWidget [])]] \<and>
         prep_add l r None =
           finish l [Exec (py ''Add group'')
             [(py ''Name'', LineEdit (JStr [])),
              (py ''Mountain'', ComboBox [([Lit (py ''Select'')], JInt (- 1))]),
              (py ''Leader id'', SpinBox (JInt 0)), (py ''Start'', DateEdit),
              (py ''Description'', LineEdit (JStr []))]] \<and>
         on_mountain_detail p r = finish p []"
proof -
  note n = parse_fails_null[OF assms(2)]
  show ?thesis
    by (simp only: n null_detail[OF assms(1) n] null_groups[OF assms(1) n]
        null_refresh[OF assms(1) n] null_climbers[OF assms(1) n] null_groups_page[OF assms(1) n]
        null_ascents[OF assms(1) n] null_stats[OF assms(1) n] null_combo[OF assms(1) n]
        null_members[OF assms(1) n] null_prep_add[OF assms(1) n] simp_thms)
qed

text \<open>
  C5 as the specification words it, a placeholder state after every such fetch, fails
  for the detail fetch: the name shown before stays.
\<close>

theorem detail_kept_on_parse_failure_counterexample:
  "name_lbl (page (on_mountain_detail
      (MountainsPage_init\<lparr>name_lbl := [Lit (py ''Name: ''), Val (JStr (py ''Everest''))]\<rparr>)
      \<lparr>error = 0, errorString = [], readAll = Unparsable\<rparr>)) \<noteq> name_lbl MountainsPage_init"
  by (simp add: on_mountain_detail_def NoError_def parse_reply_json_def pybind_def finish_def
      MountainsPage_init_def)

theorem parse_failure_is_null_payload_witness:
  "StatsPage_on_fetched [Lit (py ''old'')] \<lparr>error = 0, errorString = [], readAll = Undecodable\<rparr> =
     finish [Lit (py ''No stats'')] [] \<and>
   on_groups (MountainsPage_init\<lparr>groups_list :=
        [\<lparr>item_data = JNull, item_widget = \<lparr>title = JNull, meta = [], description = JNull\<rparr>\<rparr>]\<rparr>)
      \<lparr>error = 0, errorString = [], readAll = Undecodable\<rparr> =
     finish MountainsPage_init []"
proof -
  let ?r = "\<lparr>error = 0, errorString = [], readAll = Undecodable\<rparr>"
  let ?p = "MountainsPage_init\<lparr>groups_list :=
        [\<lparr>item_data = JNull, item_widget = \<lparr>title = JNull, meta = [], description = JNull\<rparr>\<rparr>]\<rparr>"
  have 1: "error ?r = NoError" by (simp add: NoError_def)
  have 2: "parse_fails ?r" by (simp add: parse_fails_def pybind_def)
  from parse_failure_is_null_payload[OF 1 2, of ?p _ "[Lit (py ''old'')]"]
  show ?thesis by (simp add: MountainsPage_init_def)
qed
end
